theory Spec2Isabelle
  imports Complex_Main
begin

section \<open>Data model\<close>

text \<open>
  JavaScript numbers are modelled as \<open>int\<close> where the source uses them as identifiers,
  lengths and millisecond timestamps, and as \<open>real\<close> where they are ratings, popularity
  values and scores. A rejected promise (a thrown exception) is the \<open>Inl\<close> branch of a
  sum type.
\<close>

datatype error = Error string

text \<open>
  \<open>Movie\<close> and \<open>TVShow\<close> of \<open>types/index.ts\<close> share every field that the recommendation
  code reads; a movie has a \<open>title\<close> where a series has a \<open>name\<close>. The display-only
  fields (poster, overview, dates, language) are read by none of the functions below.
\<close>

record Content =
  item_id :: int
  vote_average :: real
  popularity :: real
  genre_ids :: "int list"

record Movie = Content +
  title :: string

record TVShow = Content +
  name :: string

datatype ContentItem = MovieItem Movie | TVItem TVShow

datatype MediaType = MediaMovie | MediaTV

fun mediaType :: "ContentItem \<Rightarrow> MediaType" where
  "mediaType (MovieItem m) = MediaMovie"
| "mediaType (TVItem t) = MediaTV"

fun ci_id :: "ContentItem \<Rightarrow> int" where
  "ci_id (MovieItem m) = item_id m"
| "ci_id (TVItem t) = item_id t"

fun ci_vote_average :: "ContentItem \<Rightarrow> real" where
  "ci_vote_average (MovieItem m) = vote_average m"
| "ci_vote_average (TVItem t) = vote_average t"

fun ci_popularity :: "ContentItem \<Rightarrow> real" where
  "ci_popularity (MovieItem m) = popularity m"
| "ci_popularity (TVItem t) = popularity t"

fun ci_genre_ids :: "ContentItem \<Rightarrow> int list" where
  "ci_genre_ids (MovieItem m) = genre_ids m"
| "ci_genre_ids (TVItem t) = genre_ids t"

record TMDbMovie =
  tm_id :: int
  tm_title :: string
  tm_vote_average :: real
  tm_popularity :: real
  tm_genre_ids :: "int list"

record TMDbTVShow =
  tt_id :: int
  tt_name :: string
  tt_vote_average :: real
  tt_popularity :: real
  tt_genre_ids :: "int list"

record 'a TMDbResponse =
  page :: nat
  results :: "'a list"
  total_pages :: nat
  total_results :: nat

record SimpleCategory =
  cat_id :: string
  cat_title :: string
  subtitle :: "string option"
  data :: "ContentItem list"

record GenreCache =
  movies :: "Movie list"
  tvShows :: "TVShow list"
  lastUpdate :: int
  userGenres :: "int list"

record CacheState =
  generalCache :: GenreCache
  personalizedCache :: GenreCache

record DiscoverParams =
  dp_page :: nat
  dp_genre :: string
  dp_sort_by :: string

text \<open>
  The upstream catalogue client (\<open>tmdbService\<close>) is the environment: each endpoint answers a
  request with a page of results or with a rejection.
\<close>

record tmdbService =
  movies_discover :: "DiscoverParams \<Rightarrow> error + TMDbMovie TMDbResponse"
  movies_getPopular :: "nat \<Rightarrow> error + TMDbMovie TMDbResponse"
  movies_getTopRated :: "nat \<Rightarrow> error + TMDbMovie TMDbResponse"
  movies_getNowPlaying :: "nat \<Rightarrow> error + TMDbMovie TMDbResponse"
  tv_discover :: "DiscoverParams \<Rightarrow> error + TMDbTVShow TMDbResponse"
  tv_getPopular :: "nat \<Rightarrow> error + TMDbTVShow TMDbResponse"
  tv_getTopRated :: "nat \<Rightarrow> error + TMDbTVShow TMDbResponse"
  tv_getOnTheAir :: "nat \<Rightarrow> error + TMDbTVShow TMDbResponse"

section \<open>JavaScript library functions used by the source\<close>

text \<open>\<open>Array.prototype.findIndex\<close>: the first index whose element satisfies the predicate, else -1.\<close>

fun findIndex_from :: "('a \<Rightarrow> bool) \<Rightarrow> 'a list \<Rightarrow> nat \<Rightarrow> int" where
  "findIndex_from P [] i = - 1"
| "findIndex_from P (x # xs) i = (if P x then int i else findIndex_from P xs (Suc i))"

definition findIndex :: "('a \<Rightarrow> bool) \<Rightarrow> 'a list \<Rightarrow> int" where
  "findIndex P xs = findIndex_from P xs 0"

text \<open>\<open>Array.prototype.filter\<close> with the three-argument callback (element, index, array).\<close>

definition filter_indexed :: "('a \<Rightarrow> nat \<Rightarrow> 'a list \<Rightarrow> bool) \<Rightarrow> 'a list \<Rightarrow> 'a list" where
  "filter_indexed f self =
     map fst (filter (\<lambda>(x, i). f x i self) (zip self [0..<length self]))"

text \<open>
  \<open>Array.prototype.sort\<close> with a comparator: a stable sort (ECMAScript 2019), so for a
  consistent comparator its result is the one of stable insertion: an element goes in front
  of the first later element that the comparator does not put before it.
\<close>

fun insert_by :: "('a \<Rightarrow> 'a \<Rightarrow> real) \<Rightarrow> 'a \<Rightarrow> 'a list \<Rightarrow> 'a list" where
  "insert_by cmp x [] = [x]"
| "insert_by cmp x (y # ys) =
     (if cmp x y \<le> 0 then x # y # ys else y # insert_by cmp x ys)"

fun js_sort :: "('a \<Rightarrow> 'a \<Rightarrow> real) \<Rightarrow> 'a list \<Rightarrow> 'a list" where
  "js_sort cmp [] = []"
| "js_sort cmp (x # xs) = insert_by cmp x (js_sort cmp xs)"

text \<open>\<open>Array.prototype.slice(0, n)\<close>.\<close>

definition slice0 :: "nat \<Rightarrow> 'a list \<Rightarrow> 'a list" where
  "slice0 n xs = take n xs"

text \<open>
  \<open>Promise.all\<close>: the list of results when every promise fulfils, a rejection as soon as one
  rejects. Which rejection wins depends on timing; every caller below discards it.
\<close>

fun Promise_all :: "(error + 'a) list \<Rightarrow> error + 'a list" where
  "Promise_all [] = Inr []"
| "Promise_all (Inl e # ps) = Inl e"
| "Promise_all (Inr x # ps) =
     (case Promise_all ps of Inl e \<Rightarrow> Inl e | Inr xs \<Rightarrow> Inr (x # xs))"

text \<open>Decimal rendering of an integer (\<open>String(n)\<close> for an integral number).\<close>

fun digits :: "nat \<Rightarrow> string" where
  "digits n =
     (if n < 10 then [char_of (48 + n)]
      else digits (n div 10) @ [char_of (48 + n mod 10)])"

definition num_to_string :: "int \<Rightarrow> string" where
  "num_to_string i = (if i < 0 then CHR ''-'' # digits (nat (- i)) else digits (nat i))"

text \<open>\<open>Array.prototype.join\<close> on strings.\<close>

fun join :: "string \<Rightarrow> string list \<Rightarrow> string" where
  "join sep [] = []"
| "join sep [x] = x"
| "join sep (x # y # ys) = x @ sep @ join sep (y # ys)"

text \<open>\<open>String.prototype.toLowerCase\<close> on ASCII text.\<close>

definition toLowerCase :: "string \<Rightarrow> string" where
  "toLowerCase s =
     map (\<lambda>c. let n = (of_char c :: nat) in
               if 65 \<le> n \<and> n \<le> 90 then char_of (n + 32) else c) s"

section \<open>\<open>utils/dataTransformers.ts\<close>\<close>

definition transformTMDbMovie :: "TMDbMovie \<Rightarrow> Movie" where
  "transformTMDbMovie tmdbMovie =
     \<lparr>item_id = tm_id tmdbMovie,
      vote_average = tm_vote_average tmdbMovie,
      popularity = tm_popularity tmdbMovie,
      genre_ids = tm_genre_ids tmdbMovie,
      title = tm_title tmdbMovie\<rparr>"

definition transformTMDbTVShow :: "TMDbTVShow \<Rightarrow> TVShow" where
  "transformTMDbTVShow tmdbTVShow =
     \<lparr>item_id = tt_id tmdbTVShow,
      vote_average = tt_vote_average tmdbTVShow,
      popularity = tt_popularity tmdbTVShow,
      genre_ids = tt_genre_ids tmdbTVShow,
      name = tt_name tmdbTVShow\<rparr>"

definition transformTMDbResponse :: "'a TMDbResponse \<Rightarrow> ('a \<Rightarrow> 'b) \<Rightarrow> 'b TMDbResponse" where
  "transformTMDbResponse tmdbResponse transformer =
     \<lparr>page = page tmdbResponse,
      results = map transformer (results tmdbResponse),
      total_pages = total_pages tmdbResponse,
      total_results = total_results tmdbResponse\<rparr>"

section \<open>\<open>utils/simpleRecommendations.ts\<close>: the cached pools\<close>

definition CACHE_DURATION :: int where
  "CACHE_DURATION = 5 * 60 * 1000"

definition initialCache :: GenreCache where
  "initialCache = \<lparr>movies = [], tvShows = [], lastUpdate = 0, userGenres = []\<rparr>"

definition initialState :: CacheState where
  "initialState = \<lparr>generalCache = initialCache, personalizedCache = initialCache\<rparr>"

definition genresMatch :: "int list \<Rightarrow> int list \<Rightarrow> bool" where
  "genresMatch gs cachedGenres =
     (if length gs \<noteq> length cachedGenres then False
      else list_all (\<lambda>genre. genre \<in> set cachedGenres) gs)"

text \<open>
  \<open>getCache\<close> returns a reference to one of the two module-level cache objects; the writes
  through that reference are \<open>putCache\<close> on the same slot.
\<close>

definition getCache :: "CacheState \<Rightarrow> int list \<Rightarrow> GenreCache" where
  "getCache st gs = (if length gs = 0 then generalCache st else personalizedCache st)"

definition putCache :: "CacheState \<Rightarrow> int list \<Rightarrow> GenreCache \<Rightarrow> CacheState" where
  "putCache st gs c =
     (if length gs = 0 then st\<lparr>generalCache := c\<rparr> else st\<lparr>personalizedCache := c\<rparr>)"

text \<open>
  The deduplication filter \<open>self.findIndex(m => m.id === x.id) === index\<close>, written three
  times in the source (movies, series, genres), with the compared field as \<open>key\<close>.
\<close>

definition uniqueBy :: "('a \<Rightarrow> int) \<Rightarrow> 'a list \<Rightarrow> 'a list" where
  "uniqueBy key self =
     filter_indexed
       (\<lambda>x index self'. findIndex (\<lambda>m. key m = key x) self' = int index) self"

definition genreParam :: "int list \<Rightarrow> string" where
  "genreParam gs = join '','' (map num_to_string gs)"

definition movieRequests :: "tmdbService \<Rightarrow> int list \<Rightarrow> (error + TMDbMovie TMDbResponse) list" where
  "movieRequests svc gs =
     (if length gs > 0 then
        [movies_discover svc \<lparr>dp_page = 1, dp_genre = genreParam gs, dp_sort_by = ''popularity.desc''\<rparr>,
         movies_discover svc \<lparr>dp_page = 2, dp_genre = genreParam gs, dp_sort_by = ''popularity.desc''\<rparr>,
         movies_discover svc \<lparr>dp_page = 1, dp_genre = genreParam gs, dp_sort_by = ''vote_average.desc''\<rparr>,
         movies_discover svc \<lparr>dp_page = 1, dp_genre = genreParam gs, dp_sort_by = ''release_date.desc''\<rparr>]
      else
        [movies_getPopular svc 1, movies_getPopular svc 2,
         movies_getTopRated svc 1, movies_getNowPlaying svc 1])"

definition tvRequests :: "tmdbService \<Rightarrow> int list \<Rightarrow> (error + TMDbTVShow TMDbResponse) list" where
  "tvRequests svc gs =
     (if length gs > 0 then
        [tv_discover svc \<lparr>dp_page = 1, dp_genre = genreParam gs, dp_sort_by = ''popularity.desc''\<rparr>,
         tv_discover svc \<lparr>dp_page = 2, dp_genre = genreParam gs, dp_sort_by = ''popularity.desc''\<rparr>,
         tv_discover svc \<lparr>dp_page = 1, dp_genre = genreParam gs, dp_sort_by = ''vote_average.desc''\<rparr>,
         tv_discover svc \<lparr>dp_page = 1, dp_genre = genreParam gs, dp_sort_by = ''first_air_date.desc''\<rparr>]
      else
        [tv_getPopular svc 1, tv_getPopular svc 2,
         tv_getTopRated svc 1, tv_getOnTheAir svc 1])"

text \<open>The concatenation of the transformed pages, in the order of the requests.\<close>

definition mergePages :: "('a \<Rightarrow> 'b) \<Rightarrow> 'a TMDbResponse list \<Rightarrow> 'b list" where
  "mergePages transformer responses =
     concat (map (\<lambda>response. results (transformTMDbResponse response transformer)) responses)"

text \<open>The body of the \<open>try\<close> block up to the cache writes: the four requests, merged and deduplicated.\<close>

definition fetchMovies :: "tmdbService \<Rightarrow> int list \<Rightarrow> error + Movie list" where
  "fetchMovies svc gs =
     (case Promise_all (movieRequests svc gs) of
        Inl e \<Rightarrow> Inl e
      | Inr responses \<Rightarrow> Inr (uniqueBy item_id (mergePages transformTMDbMovie responses)))"

definition fetchTVShows :: "tmdbService \<Rightarrow> int list \<Rightarrow> error + TVShow list" where
  "fetchTVShows svc gs =
     (case Promise_all (tvRequests svc gs) of
        Inl e \<Rightarrow> Inl e
      | Inr responses \<Rightarrow> Inr (uniqueBy item_id (mergePages transformTMDbTVShow responses)))"

text \<open>
  \<open>getMoviesFromAPI\<close> at clock reading \<open>now\<close>: the promise's outcome and the cache state it
  leaves. The returned array is in every branch the array held by the cache.
\<close>

definition getMoviesFromAPI ::
  "tmdbService \<Rightarrow> int \<Rightarrow> int list \<Rightarrow> CacheState \<Rightarrow> (error + Movie list) \<times> CacheState" where
  "getMoviesFromAPI svc now gs st =
     (let cache = getCache st gs in
      if length (movies cache) > 0 \<and> now - lastUpdate cache < CACHE_DURATION
      then (Inr (movies cache), st)
      else (case fetchMovies svc gs of
              Inr uniqueMovies \<Rightarrow>
                (Inr uniqueMovies,
                 putCache st gs (cache\<lparr>movies := uniqueMovies, lastUpdate := now, userGenres := gs\<rparr>))
            | Inl e \<Rightarrow> (Inr (movies cache), st)))"

definition getTVShowsFromAPI ::
  "tmdbService \<Rightarrow> int \<Rightarrow> int list \<Rightarrow> CacheState \<Rightarrow> (error + TVShow list) \<times> CacheState" where
  "getTVShowsFromAPI svc now gs st =
     (let cache = getCache st gs in
      if length (tvShows cache) > 0 \<and> now - lastUpdate cache < CACHE_DURATION
      then (Inr (tvShows cache), st)
      else (case fetchTVShows svc gs of
              Inr uniqueTVShows \<Rightarrow>
                (Inr uniqueTVShows,
                 putCache st gs (cache\<lparr>tvShows := uniqueTVShows, lastUpdate := now, userGenres := gs\<rparr>))
            | Inl e \<Rightarrow> (Inr (tvShows cache), st)))"

section \<open>\<open>utils/storage.ts\<close> and \<open>utils/genreStorage.ts\<close>: the genre preferences\<close>

record UserPreferences =
  favoriteGenres :: "int list"
  preferredLanguage :: string
  adultContent :: bool
  sortMethod :: string
  theme :: string

text \<open>
  The device storage under the key \<open>@MovieApp:preferences\<close>: the stored value if any, and
  whether reading (\<open>AsyncStorage.getItem\<close> followed by \<open>JSON.parse\<close>) and writing
  (\<open>JSON.stringify\<close> followed by \<open>AsyncStorage.setItem\<close>) currently fail.
\<close>

record AsyncStorage =
  preferences_item :: "UserPreferences option"
  getItem_fails :: bool
  setItem_fails :: bool

definition AsyncStorage_getItem :: "AsyncStorage \<Rightarrow> error + UserPreferences option" where
  "AsyncStorage_getItem stor =
     (if getItem_fails stor then Inl (Error ''getItem'') else Inr (preferences_item stor))"

definition AsyncStorage_setItem :: "UserPreferences \<Rightarrow> AsyncStorage \<Rightarrow> (error + unit) \<times> AsyncStorage" where
  "AsyncStorage_setItem v stor =
     (if setItem_fails stor then (Inl (Error ''setItem''), stor)
      else (Inr (), stor\<lparr>preferences_item := Some v\<rparr>))"

definition setStorageItem :: "UserPreferences \<Rightarrow> AsyncStorage \<Rightarrow> (error + unit) \<times> AsyncStorage" where
  "setStorageItem v stor =
     (case AsyncStorage_setItem v stor of
        (Inl e, stor') \<Rightarrow> (Inl (Error ''Failed to save @MovieApp:preferences''), stor')
      | (Inr u, stor') \<Rightarrow> (Inr u, stor'))"

definition getStorageItem :: "AsyncStorage \<Rightarrow> UserPreferences \<Rightarrow> UserPreferences" where
  "getStorageItem stor defaultValue =
     (case AsyncStorage_getItem stor of
        Inl e \<Rightarrow> defaultValue
      | Inr None \<Rightarrow> defaultValue
      | Inr (Some v) \<Rightarrow> v)"

definition defaultPreferences :: UserPreferences where
  "defaultPreferences =
     \<lparr>favoriteGenres = [], preferredLanguage = ''en'', adultContent = False,
      sortMethod = ''popularity'', theme = ''dark''\<rparr>"

definition getUserPreferences :: "AsyncStorage \<Rightarrow> UserPreferences" where
  "getUserPreferences stor = getStorageItem stor defaultPreferences"

text \<open>
  \<open>updateUserPreferences\<close> merges a partial record into the current one
  (\<open>{...currentPreferences, ...preferences}\<close>); the partial record is the update \<open>upd\<close>.
\<close>

definition updateUserPreferences ::
  "(UserPreferences \<Rightarrow> UserPreferences) \<Rightarrow> AsyncStorage \<Rightarrow> (error + UserPreferences) \<times> AsyncStorage" where
  "updateUserPreferences upd stor =
     (let currentPreferences = getUserPreferences stor;
          updatedPreferences = upd currentPreferences
      in case setStorageItem updatedPreferences stor of
           (Inl e, stor') \<Rightarrow> (Inl (Error ''Failed to update user preferences''), stor')
         | (Inr u, stor') \<Rightarrow> (Inr updatedPreferences, stor'))"

text \<open>
  \<open>getGenrePreferences\<close>: \<open>getUserPreferences\<close> cannot reject (\<open>getStorageItem\<close> catches and
  answers the default), so the \<open>catch\<close> of \<open>getGenrePreferences\<close> is never entered; the stored
  record is typed, so \<open>favoriteGenres || []\<close> is \<open>favoriteGenres\<close>.
\<close>

definition getGenrePreferences :: "AsyncStorage \<Rightarrow> int list" where
  "getGenrePreferences stor = favoriteGenres (getUserPreferences stor)"

definition setGenrePreferences :: "int list \<Rightarrow> AsyncStorage \<Rightarrow> bool \<times> AsyncStorage" where
  "setGenrePreferences genreIds stor =
     (case updateUserPreferences (\<lambda>p. p\<lparr>favoriteGenres := genreIds\<rparr>) stor of
        (Inr p, stor') \<Rightarrow> (True, stor')
      | (Inl e, stor') \<Rightarrow> (False, stor'))"

definition addGenrePreference :: "int \<Rightarrow> AsyncStorage \<Rightarrow> bool \<times> AsyncStorage" where
  "addGenrePreference genreId stor =
     (let currentGenres = getGenrePreferences stor in
      if genreId \<notin> set currentGenres
      then (let updatedGenres = currentGenres @ [genreId] in setGenrePreferences updatedGenres stor)
      else (True, stor))"

definition getGenreMatchScore :: "AsyncStorage \<Rightarrow> int list \<Rightarrow> real" where
  "getGenreMatchScore stor contentGenreIds =
     (let preferences = getGenrePreferences stor in
      if length preferences = 0 \<or> length contentGenreIds = 0 then 0
      else
        (let matchingGenres = filter (\<lambda>i. i \<in> set preferences) contentGenreIds;
             matchScore = real (length matchingGenres) / real (length preferences);
             genreRatio = real (length matchingGenres) / real (length contentGenreIds)
         in matchScore * 0.7 + genreRatio * 0.3))"

record Genre =
  g_id :: int
  g_name :: string





section \<open>\<open>utils/simpleRecommendations.ts\<close>: scoring and categories\<close>

definition scoreContent :: "ContentItem \<Rightarrow> int list \<Rightarrow> real" where
  "scoreContent item gs =
     (if length gs = 0 then ci_vote_average item / 10
      else
        (let itemGenres = ci_genre_ids item;
             matchingGenres = filter (\<lambda>genreId. genreId \<in> set gs) itemGenres;
             genreScore = real (length matchingGenres) / real (max (length gs) 1);
             ratingScore = ci_vote_average item / 10
         in genreScore * 0.7 + ratingScore * 0.3))"

text \<open>The three comparators of the source.\<close>

definition byPopularity :: "ContentItem \<Rightarrow> ContentItem \<Rightarrow> real" where
  "byPopularity a b = ci_popularity b - ci_popularity a"

definition byRating :: "ContentItem \<Rightarrow> ContentItem \<Rightarrow> real" where
  "byRating a b = ci_vote_average b - ci_vote_average a"

definition byScore :: "('a \<times> real) \<Rightarrow> ('a \<times> real) \<Rightarrow> real" where
  "byScore a b = snd b - snd a"

text \<open>
  \<open>getPersonalizedContent\<close> answers the selected items and, as second component, the
  \<open>content\<close> array as the call leaves it: with no genres the array is sorted in place.
\<close>

definition getPersonalizedContent ::
  "ContentItem list \<Rightarrow> int list \<Rightarrow> nat \<Rightarrow> ContentItem list \<times> ContentItem list" where
  "getPersonalizedContent content gs limit =
     (if length gs = 0
      then (let sorted' = js_sort byRating content in (slice0 limit sorted', sorted'))
      else (slice0 limit
              (map fst (js_sort byScore (map (\<lambda>item. (item, scoreContent item gs)) content))),
            content))"

text \<open>
  \<open>getFallbackCategories\<close>, with the clock readings of its two pool calls. The arrays it
  sorts in place are the arrays held by the general cache, which is left in the last order.
\<close>

definition getFallbackCategories ::
  "tmdbService \<Rightarrow> int \<Rightarrow> int \<Rightarrow> CacheState \<Rightarrow> (error + SimpleCategory list) \<times> CacheState" where
  "getFallbackCategories svc t1 t2 st =
     (case getMoviesFromAPI svc t1 [] st of
        (Inl e, st1) \<Rightarrow> (Inl e, st1)
      | (Inr allMovies, st1) \<Rightarrow>
          (case getTVShowsFromAPI svc t2 [] st1 of
             (Inl e, st2) \<Rightarrow> (Inl e, st2)
           | (Inr allTVShows, st2) \<Rightarrow>
               (let m1 = js_sort (\<lambda>a b. popularity b - popularity a) allMovies;
                    m2 = js_sort (\<lambda>a b. vote_average b - vote_average a) m1;
                    s1 = js_sort (\<lambda>a b. popularity b - popularity a) allTVShows;
                    s2 = js_sort (\<lambda>a b. vote_average b - vote_average a) s1
                in (Inr
                     [\<lparr>cat_id = ''popular-movies'', cat_title = ''Popular Movies'',
                       subtitle = None, data = map MovieItem (slice0 20 m1)\<rparr>,
                      \<lparr>cat_id = ''top-rated-movies'', cat_title = ''Top Rated Movies'',
                       subtitle = None, data = map MovieItem (slice0 20 m2)\<rparr>,
                      \<lparr>cat_id = ''popular-tv'', cat_title = ''Popular TV Shows'',
                       subtitle = None, data = map TVItem (slice0 20 s1)\<rparr>,
                      \<lparr>cat_id = ''top-rated-tv'', cat_title = ''Top Rated TV Shows'',
                       subtitle = None, data = map TVItem (slice0 20 s2)\<rparr>],
                    st2\<lparr>generalCache := (generalCache st2)\<lparr>movies := m2, tvShows := s2\<rparr>\<rparr>))))"

definition genreNames :: "(int \<times> string) list" where
  "genreNames =
     [(28, ''Action''), (12, ''Adventure''), (16, ''Animation''), (35, ''Comedy''),
      (80, ''Crime''), (99, ''Documentary''), (18, ''Drama''), (10751, ''Family''),
      (14, ''Fantasy''), (36, ''History''), (27, ''Horror''), (10402, ''Music''),
      (9648, ''Mystery''), (10749, ''Romance''), (878, ''Science Fiction''),
      (10770, ''TV Movie''), (53, ''Thriller''), (10752, ''War''), (37, ''Western'')]"

text \<open>The body of \<open>topGenres.forEach\<close>: the categories that one genre pushes (one or none).\<close>

definition genreCategory :: "ContentItem list \<Rightarrow> int \<Rightarrow> SimpleCategory list" where
  "genreCategory allContent genreId =
     (let genreName = (case map_of genreNames genreId of
                         Some n \<Rightarrow> n
                       | None \<Rightarrow> ''Genre '' @ num_to_string genreId);
          genreContent =
            slice0 20
              (js_sort byRating (filter (\<lambda>item. genreId \<in> set (ci_genre_ids item)) allContent))
      in if length genreContent > 0
         then [\<lparr>cat_id = ''genre-'' @ num_to_string genreId,
                cat_title = ''Best '' @ genreName,
                subtitle = Some (''Top-rated '' @ toLowerCase genreName @ '' content''),
                data = genreContent\<rparr>]
         else [])"

text \<open>
  The categories that \<open>getPersonalizedCategories\<close> builds from the two pools. \<open>allContent\<close> is a
  fresh array, sorted in place by popularity before the genre categories filter it.
\<close>

definition personalizedCategoriesOf ::
  "Movie list \<Rightarrow> TVShow list \<Rightarrow> int list \<Rightarrow> SimpleCategory list" where
  "personalizedCategoriesOf allMovies allTVShows gs =
     (let allContent = map MovieItem allMovies @ map TVItem allTVShows;
          (forYou, allContent1) = getPersonalizedContent allContent gs 20;
          allContent2 = js_sort byPopularity allContent1;
          trendingContent = slice0 20 allContent2;
          topGenres = slice0 2 gs
      in [\<lparr>cat_id = ''for-you'', cat_title = ''For You'',
           subtitle = Some ''Handpicked based on your preferences'', data = forYou\<rparr>,
          \<lparr>cat_id = ''trending'', cat_title = ''Trending Now'',
           subtitle = Some ''Popular content in your favorite genres'', data = trendingContent\<rparr>]
         @ concat (map (genreCategory allContent2) topGenres))"

definition getPersonalizedCategories ::
  "tmdbService \<Rightarrow> int \<Rightarrow> int \<Rightarrow> int list \<Rightarrow> CacheState \<Rightarrow> (error + SimpleCategory list) \<times> CacheState" where
  "getPersonalizedCategories svc t1 t2 gs st =
     (case getMoviesFromAPI svc t1 gs st of
        (Inl e, st1) \<Rightarrow> (Inl e, st1)
      | (Inr allMovies, st1) \<Rightarrow>
          (case getTVShowsFromAPI svc t2 gs st1 of
             (Inl e, st2) \<Rightarrow> (Inl e, st2)
           | (Inr allTVShows, st2) \<Rightarrow>
               (Inr (personalizedCategoriesOf allMovies allTVShows gs), st2)))"

text \<open>\<open>hasUserPreferences\<close>: \<open>getGenrePreferences\<close> cannot reject, so the \<open>catch\<close> is never entered.\<close>

definition hasUserPreferences :: "AsyncStorage \<Rightarrow> bool" where
  "hasUserPreferences stor = (let preferences = getGenrePreferences stor in length preferences \<ge> 3)"

text \<open>
  \<open>getSimpleRecommendations\<close>, with the clock readings \<open>t1\<close>, \<open>t2\<close> of the pool calls in the
  \<open>try\<close> block and \<open>t3\<close>, \<open>t4\<close> of those in the \<open>catch\<close> block.
\<close>

definition getSimpleRecommendations ::
  "tmdbService \<Rightarrow> AsyncStorage \<Rightarrow> int \<Rightarrow> int \<Rightarrow> int \<Rightarrow> int \<Rightarrow> CacheState
     \<Rightarrow> (error + SimpleCategory list) \<times> CacheState" where
  "getSimpleRecommendations svc stor t1 t2 t3 t4 st =
     (let userHasPrefs = hasUserPreferences stor;
          attempt = (if \<not> userHasPrefs then getFallbackCategories svc t1 t2 st
                     else (let gs = getGenrePreferences stor
                           in getPersonalizedCategories svc t1 t2 gs st))
      in case attempt of
           (Inr categories, st') \<Rightarrow> (Inr categories, st')
         | (Inl e, st') \<Rightarrow> getFallbackCategories svc t3 t4 st')"

section \<open>\<open>hooks/useSimpleRecommendations.ts\<close>: what the caller sees\<close>

record HookState =
  categories :: "SimpleCategory list"
  hasPreferences :: bool
  loading :: bool
  hook_error :: "string option"

text \<open>
  \<open>loadData\<close> of a mounted component (\<open>safeAsync\<close> then passes results and rejections
  through). The \<open>error\<close> field of the hook is the only error signal a screen can read.
\<close>

definition loadData ::
  "tmdbService \<Rightarrow> AsyncStorage \<Rightarrow> int \<Rightarrow> int \<Rightarrow> int \<Rightarrow> int \<Rightarrow> HookState \<times> CacheState
     \<Rightarrow> HookState \<times> CacheState" where
  "loadData svc stor t1 t2 t3 t4 hs =
     (let h0 = (fst hs)\<lparr>hook_error := None\<rparr>;
          userHasPrefs = hasUserPreferences stor;
          h1 = h0\<lparr>hasPreferences := userHasPrefs\<rparr>
      in case getSimpleRecommendations svc stor t1 t2 t3 t4 (snd hs) of
           (Inr recs, st') \<Rightarrow> (h1\<lparr>categories := recs, loading := False\<rparr>, st')
         | (Inl (Error msg), st') \<Rightarrow>
             (h1\<lparr>hook_error := Some msg, categories := [], loading := False\<rparr>, st'))"

section \<open>\<open>screens/EditProfileScreen.tsx\<close>: the search cache\<close>

text \<open>
  A JavaScript \<open>Map\<close> keeps its keys in insertion order: an association list with distinct
  keys. \<open>set\<close> on a present key replaces the value in place, on a new key appends.
\<close>

type_synonym 'v JSMap = "(string \<times> 'v) list"

definition map_has :: "'v JSMap \<Rightarrow> string \<Rightarrow> bool" where
  "map_has m k = (k \<in> set (map fst m))"

definition map_get :: "'v JSMap \<Rightarrow> string \<Rightarrow> 'v option" where
  "map_get m k = map_of m k"

fun map_set :: "'v JSMap \<Rightarrow> string \<Rightarrow> 'v \<Rightarrow> 'v JSMap" where
  "map_set [] k v = [(k, v)]"
| "map_set ((k', v') # m) k v = (if k' = k then (k, v) # m else (k', v') # map_set m k v)"

definition map_delete :: "'v JSMap \<Rightarrow> string \<Rightarrow> 'v JSMap" where
  "map_delete m k = filter (\<lambda>(k', v). k' \<noteq> k) m"

text \<open>\<open>m.keys().next().value\<close>: the first key, \<open>undefined\<close> (here \<open>None\<close>) on an empty map.\<close>

definition map_first_key :: "'v JSMap \<Rightarrow> string option" where
  "map_first_key m = (case m of [] \<Rightarrow> None | (k, v) # rest \<Rightarrow> Some k)"

text \<open>Default \<open>Array.prototype.sort()\<close>: by the string renderings, in code-unit order.\<close>

fun str_less :: "string \<Rightarrow> string \<Rightarrow> bool" where
  "str_less [] [] = False"
| "str_less [] (y # ys) = True"
| "str_less (x # xs) [] = False"
| "str_less (x # xs) (y # ys) =
     ((of_char x :: nat) < of_char y \<or> (x = y \<and> str_less xs ys))"

definition sortDefault :: "int list \<Rightarrow> int list" where
  "sortDefault xs =
     js_sort (\<lambda>a b. if str_less (num_to_string a) (num_to_string b) then - 1
                     else if str_less (num_to_string b) (num_to_string a) then 1 else 0) xs"

definition cacheKey :: "string \<Rightarrow> int list \<Rightarrow> string" where
  "cacheKey query selectedGenreFilters =
     toLowerCase query @ ''_'' @ join '','' (map num_to_string (sortDefault selectedGenreFilters))"

text \<open>
  The updater passed to \<open>setSearchCache\<close>. The test \<open>if (firstKey)\<close> is false for
  \<open>undefined\<close> and for the empty string.
\<close>

definition updateSearchCache :: "string \<Rightarrow> 'v \<Rightarrow> 'v JSMap \<Rightarrow> 'v JSMap" where
  "updateSearchCache key rs prev =
     (let newCache = map_set prev key rs in
      if length newCache > 10
      then (case map_first_key newCache of
              Some firstKey \<Rightarrow> (if firstKey \<noteq> [] then map_delete newCache firstKey else newCache)
            | None \<Rightarrow> newCache)
      else newCache)"

text \<open>
  The cache effect of one \<open>performSearch\<close>: \<open>outcome\<close> is what the upstream search, filter and
  ranking produce (the ranked list, or the exception that skips the cache write). A hit
  returns before any write.
\<close>

definition performSearch ::
  "string \<Rightarrow> int list \<Rightarrow> error + 'v \<Rightarrow> 'v JSMap \<Rightarrow> 'v JSMap" where
  "performSearch query selectedGenreFilters outcome searchCache =
     (let key = cacheKey query selectedGenreFilters in
      if map_has searchCache key then searchCache
      else (case outcome of
              Inl e \<Rightarrow> searchCache
            | Inr rs \<Rightarrow> updateSearchCache key rs searchCache))"

text \<open>The cache after a sequence of searches, starting from the empty \<open>Map\<close> of \<open>useState\<close>.\<close>

fun runSearches :: "(string \<times> int list \<times> (error + 'v)) list \<Rightarrow> 'v JSMap \<Rightarrow> 'v JSMap" where
  "runSearches [] c = c"
| "runSearches ((q, fs, outcome) # rest) c = runSearches rest (performSearch q fs outcome c)"

section \<open>Specification predicates and sample inputs\<close>

text \<open>
  \<open>topBy k n pool d\<close>: the list \<open>d\<close> is a selection of \<open>min n |pool|\<close> items of \<open>pool\<close>, in
  descending order of the key \<open>k\<close>, and no item left out has a larger key than an item taken.
  \<open>cache_inv\<close> is the invariant of the search cache. \<open>modeGenres\<close> is the genre set that
  \<open>getSimpleRecommendations\<close> hands to the pool operations. The remaining constants are a
  catalogue service that answers, one that rejects every request, and sample storage contents.
\<close>

definition svcDown :: tmdbService where
  "svcDown =
     \<lparr>movies_discover = (\<lambda>p. Inl (Error ''network'')),
      movies_getPopular = (\<lambda>p. Inl (Error ''network'')),
      movies_getTopRated = (\<lambda>p. Inl (Error ''network'')),
      movies_getNowPlaying = (\<lambda>p. Inl (Error ''network'')),
      tv_discover = (\<lambda>p. Inl (Error ''network'')),
      tv_getPopular = (\<lambda>p. Inl (Error ''network'')),
      tv_getTopRated = (\<lambda>p. Inl (Error ''network'')),
      tv_getOnTheAir = (\<lambda>p. Inl (Error ''network''))\<rparr>"

definition mkMovie :: "int \<Rightarrow> string \<Rightarrow> real \<Rightarrow> real \<Rightarrow> int list \<Rightarrow> TMDbMovie" where
  "mkMovie i t v p gs = \<lparr>tm_id = i, tm_title = t, tm_vote_average = v, tm_popularity = p, tm_genre_ids = gs\<rparr>"

definition mkTV :: "int \<Rightarrow> string \<Rightarrow> real \<Rightarrow> real \<Rightarrow> int list \<Rightarrow> TMDbTVShow" where
  "mkTV i t v p gs = \<lparr>tt_id = i, tt_name = t, tt_vote_average = v, tt_popularity = p, tt_genre_ids = gs\<rparr>"

definition onePage :: "'a list \<Rightarrow> error + 'a TMDbResponse" where
  "onePage xs = Inr \<lparr>page = 1, results = xs, total_pages = 1, total_results = length xs\<rparr>"

definition svcDemo :: tmdbService where
  "svcDemo =
     \<lparr>movies_discover = (\<lambda>p. onePage [mkMovie 1 ''Heat'' 8 50 [28, 80], mkMovie 2 ''Up'' 7 90 [16, 12]]),
      movies_getPopular = (\<lambda>p. onePage [mkMovie 1 ''Heat'' 8 50 [28, 80], mkMovie 2 ''Up'' 7 90 [16, 12]]),
      movies_getTopRated = (\<lambda>p. onePage [mkMovie 2 ''Up (reissue)'' 9 10 [16], mkMovie 3 ''Alien'' 8.5 70 [27, 878]]),
      movies_getNowPlaying = (\<lambda>p. onePage []),
      tv_discover = (\<lambda>p. onePage [mkTV 1 ''Lost'' 7.5 60 [18, 9648]]),
      tv_getPopular = (\<lambda>p. onePage [mkTV 1 ''Lost'' 7.5 60 [18, 9648]]),
      tv_getTopRated = (\<lambda>p. onePage [mkTV 4 ''Dark'' 8.8 40 [18, 878]]),
      tv_getOnTheAir = (\<lambda>p. onePage [mkTV 1 ''Lost again'' 1 1 []])\<rparr>"

definition storWith :: "int list \<Rightarrow> AsyncStorage" where
  "storWith gs =
     \<lparr>preferences_item = Some (defaultPreferences\<lparr>favoriteGenres := gs\<rparr>),
      getItem_fails = False, setItem_fails = False\<rparr>"


definition cache_inv :: "'v JSMap \<Rightarrow> bool" where
  "cache_inv c = (distinct (map fst c) \<and> [] \<notin> set (map fst c) \<and> length c \<le> 10)"

definition tenSearches :: "(string \<times> int list \<times> (error + nat)) list" where
  "tenSearches =
     [(''a0'', [], Inr 0), (''a1'', [], Inr 1), (''a2'', [], Inr 2), (''a3'', [], Inr 3),
      (''a4'', [], Inr 4), (''a5'', [], Inr 5), (''a6'', [], Inr 6), (''a7'', [], Inr 7),
      (''a8'', [], Inr 8), (''a9'', [], Inr 9)]"

definition topBy :: "(ContentItem \<Rightarrow> real) \<Rightarrow> nat \<Rightarrow> ContentItem list \<Rightarrow> ContentItem list \<Rightarrow> bool" where
  "topBy k n pool d =
     (length d = min n (length pool) \<and> set d \<subseteq> set pool \<and>
      sorted_wrt (\<lambda>a b. k b \<le> k a) d \<and>
      (\<forall>b\<in>set pool. b \<notin> set d \<longrightarrow> (\<forall>a\<in>set d. k b \<le> k a)))"

definition hookInit :: HookState where
  "hookInit = \<lparr>categories = [], hasPreferences = False, loading = True, hook_error = None\<rparr>"

definition modeGenres :: "AsyncStorage \<Rightarrow> int list" where
  "modeGenres stor = (if hasUserPreferences stor then getGenrePreferences stor else [])"

section \<open>Properties\<close>

lemma findIndex_from_Suc:
  "(findIndex_from P xs (Suc i) = int (Suc j)) = (findIndex_from P xs i = int j)"
  by (induction xs arbitrary: i) auto

lemma findIndex_from_Suc':
  "(findIndex_from P xs (Suc i) = 1 + int j) = (findIndex_from P xs i = int j)"
  using findIndex_from_Suc[of P xs i j] by simp

lemma filter_fst_map:
  "map fst (filter (\<lambda>(y, i). A y) zs) = filter A (map fst zs)"
  by (induction zs) auto

lemma uniqueBy_Nil: "uniqueBy key [] = []"
  by (simp add: uniqueBy_def filter_indexed_def)

lemma uniqueBy_Cons:
  "uniqueBy key (x # xs) = x # filter (\<lambda>y. key y \<noteq> key x) (uniqueBy key xs)"
proof -
  let ?n = "length xs"
  have up: "[0..<Suc ?n] = 0 # map Suc [0..<?n]"
    by (simp add: upt_conv_Cons map_Suc_upt del: upt_Suc)
  have tail: "filter (\<lambda>(y, i). findIndex (\<lambda>m. key m = key y) (x # xs) = int i)
                 (zip xs (map Suc [0..<?n]))
            = map (\<lambda>(y, i). (y, Suc i))
                 (filter (\<lambda>(y, i). key y \<noteq> key x \<and> findIndex (\<lambda>m. key m = key y) xs = int i)
                    (zip xs [0..<?n]))"
    unfolding zip_map2 filter_map
    by (rule arg_cong[where f="map _"], rule filter_cong)
       (auto simp: findIndex_def findIndex_from_Suc' split: if_splits)
  have split: "filter (\<lambda>(y, i). key y \<noteq> key x \<and> findIndex (\<lambda>m. key m = key y) xs = int i) zs
        = filter (\<lambda>(y, i). key y \<noteq> key x) (filter (\<lambda>(y, i). findIndex (\<lambda>m. key m = key y) xs = int i) zs)" for zs
    by (induction zs) auto
  let ?F = "\<lambda>(y, i). findIndex (\<lambda>m. key m = key y) (x # xs) = int i"
  let ?B = "\<lambda>(y, i). findIndex (\<lambda>m. key m = key y) xs = int i"
  have "uniqueBy key (x # xs) = map fst (filter ?F ((x, 0) # zip xs (map Suc [0..<?n])))"
    unfolding uniqueBy_def filter_indexed_def by (simp only: length_Cons up zip_Cons_Cons)
  also have "\<dots> = x # map fst (filter ?F (zip xs (map Suc [0..<?n])))"
    by (simp add: findIndex_def)
  also have "\<dots> = x # map fst (filter (\<lambda>(y, i). key y \<noteq> key x) (filter ?B (zip xs [0..<?n])))"
    by (simp only: tail split map_map) (simp add: comp_def case_prod_unfold)
  also have "\<dots> = x # filter (\<lambda>y. key y \<noteq> key x) (uniqueBy key xs)"
    unfolding uniqueBy_def filter_indexed_def by (simp only: filter_fst_map)
  finally show ?thesis .
qed

lemma uniqueBy_subset: "set (uniqueBy key xs) \<subseteq> set xs"
  by (induction xs) (auto simp: uniqueBy_Nil uniqueBy_Cons)

lemma uniqueBy_keys: "key ` set (uniqueBy key xs) = key ` set xs"
proof (induction xs)
  case Nil
  show ?case by (simp add: uniqueBy_Nil)
next
  case (Cons x xs)
  have "key ` set (filter (\<lambda>y. key y \<noteq> key x) (uniqueBy key xs))
          = key ` set (uniqueBy key xs) - {key x}"
    by auto
  with Cons show ?case by (auto simp: uniqueBy_Cons)
qed

lemma uniqueBy_distinct: "distinct (map key (uniqueBy key xs))"
proof (induction xs)
  case Nil
  show ?case by (simp add: uniqueBy_Nil)
next
  case (Cons x xs)
  then show ?case by (auto simp: uniqueBy_Cons distinct_map_filter)
qed

lemma find_filter_other:
  "k \<noteq> k' \<Longrightarrow> find (\<lambda>y. key y = k) (filter (\<lambda>y. key y \<noteq> k') ys) = find (\<lambda>y. key y = k) ys"
  by (induction ys) auto

lemma uniqueBy_first:
  "find (\<lambda>y. key y = k) (uniqueBy key xs) = find (\<lambda>y. key y = k) xs"
proof (induction xs)
  case Nil
  show ?case by (simp add: uniqueBy_Nil)
next
  case (Cons x xs)
  then show ?case by (simp add: uniqueBy_Cons find_filter_other)
qed

lemma Promise_all_Inl: "(\<exists>e. Promise_all ps = Inl e) = (\<exists>r\<in>set ps. isl r)"
proof (induction ps)
  case Nil
  show ?case by simp
next
  case (Cons p ps)
  then show ?case by (cases p) (auto split: sum.splits)
qed

text \<open>
  Claim C8: the pool that one round produces (the four pages concatenated in request order,
  then deduplicated) holds no two items with the same (id, media type) pair, and for every
  id the item kept is the first one with that id in the concatenation. The same holds for the
  movie pool and the series pool put together.
\<close>

theorem merged_pool_unique_first_wins:
  "(fetchMovies svc gs = Inr ms \<longrightarrow>
      (\<exists>responses. Promise_all (movieRequests svc gs) = Inr responses \<and>
         distinct (map (\<lambda>m. (ci_id (MovieItem m), mediaType (MovieItem m))) ms) \<and>
         (\<forall>k. find (\<lambda>m. item_id m = k) ms
                = find (\<lambda>m. item_id m = k) (mergePages transformTMDbMovie responses)))) \<and>
   (fetchTVShows svc gs = Inr ts \<longrightarrow>
      (\<exists>responses. Promise_all (tvRequests svc gs) = Inr responses \<and>
         distinct (map (\<lambda>t. (ci_id (TVItem t), mediaType (TVItem t))) ts) \<and>
         (\<forall>k. find (\<lambda>t. item_id t = k) ts
                = find (\<lambda>t. item_id t = k) (mergePages transformTMDbTVShow responses)))) \<and>
   (fetchMovies svc gs = Inr ms \<and> fetchTVShows svc gs = Inr ts \<longrightarrow>
      distinct (map (\<lambda>c. (ci_id c, mediaType c)) (map MovieItem ms @ map TVItem ts)))"
proof -
  have pairs: "distinct (map (\<lambda>x. (item_id x, c)) xs) = distinct (map item_id xs)" for xs :: "('a Content_scheme) list" and c :: MediaType
    by (induction xs) auto
  have m: "\<exists>responses. Promise_all (movieRequests svc gs) = Inr responses \<and>
         distinct (map item_id ms) \<and>
         (\<forall>k. find (\<lambda>m. item_id m = k) ms
                = find (\<lambda>m. item_id m = k) (mergePages transformTMDbMovie responses))"
    if "fetchMovies svc gs = Inr ms"
    using that by (auto simp: fetchMovies_def uniqueBy_distinct uniqueBy_first split: sum.splits)
  have t: "\<exists>responses. Promise_all (tvRequests svc gs) = Inr responses \<and>
         distinct (map item_id ts) \<and>
         (\<forall>k. find (\<lambda>m. item_id m = k) ts
                = find (\<lambda>m. item_id m = k) (mergePages transformTMDbTVShow responses))"
    if "fetchTVShows svc gs = Inr ts"
    using that by (auto simp: fetchTVShows_def uniqueBy_distinct uniqueBy_first split: sum.splits)
  have both: "distinct (map (\<lambda>c. (ci_id c, mediaType c)) (map MovieItem ms @ map TVItem ts))"
    if "distinct (map item_id ms)" "distinct (map item_id ts)"
    using that by (auto simp: comp_def pairs)
  show ?thesis using m t both by (auto simp: comp_def pairs)
qed

theorem merged_pool_unique_first_wins_witness:
  "fetchMovies svcDemo [] =
     Inr [transformTMDbMovie (mkMovie 1 ''Heat'' 8 50 [28, 80]),
          transformTMDbMovie (mkMovie 2 ''Up'' 7 90 [16, 12]),
          transformTMDbMovie (mkMovie 3 ''Alien'' 8.5 70 [27, 878])] \<and>
   fetchTVShows svcDemo [] =
     Inr [transformTMDbTVShow (mkTV 1 ''Lost'' 7.5 60 [18, 9648]),
          transformTMDbTVShow (mkTV 4 ''Dark'' 8.8 40 [18, 878])] \<and>
   distinct (map (\<lambda>c. (ci_id c, mediaType c))
     (map MovieItem [transformTMDbMovie (mkMovie 1 ''Heat'' 8 50 [28, 80]),
                     transformTMDbMovie (mkMovie 2 ''Up'' 7 90 [16, 12]),
                     transformTMDbMovie (mkMovie 3 ''Alien'' 8.5 70 [27, 878])]
      @ map TVItem [transformTMDbTVShow (mkTV 1 ''Lost'' 7.5 60 [18, 9648]),
                    transformTMDbTVShow (mkTV 4 ''Dark'' 8.8 40 [18, 878])]))"
proof -
  have m: "fetchMovies svcDemo [] =
     Inr [transformTMDbMovie (mkMovie 1 ''Heat'' 8 50 [28, 80]),
          transformTMDbMovie (mkMovie 2 ''Up'' 7 90 [16, 12]),
          transformTMDbMovie (mkMovie 3 ''Alien'' 8.5 70 [27, 878])]"
    by (simp add: fetchMovies_def movieRequests_def svcDemo_def onePage_def mergePages_def
        transformTMDbResponse_def uniqueBy_Cons uniqueBy_Nil transformTMDbMovie_def mkMovie_def)
  have t: "fetchTVShows svcDemo [] =
     Inr [transformTMDbTVShow (mkTV 1 ''Lost'' 7.5 60 [18, 9648]),
          transformTMDbTVShow (mkTV 4 ''Dark'' 8.8 40 [18, 878])]"
    by (simp add: fetchTVShows_def tvRequests_def svcDemo_def onePage_def mergePages_def
        transformTMDbResponse_def uniqueBy_Cons uniqueBy_Nil transformTMDbTVShow_def mkTV_def)
  show ?thesis
    using merged_pool_unique_first_wins [of svcDemo "[]"
        "[transformTMDbMovie (mkMovie 1 ''Heat'' 8 50 [28, 80]),
          transformTMDbMovie (mkMovie 2 ''Up'' 7 90 [16, 12]),
          transformTMDbMovie (mkMovie 3 ''Alien'' 8.5 70 [27, 878])]"
        "[transformTMDbTVShow (mkTV 1 ''Lost'' 7.5 60 [18, 9648]),
          transformTMDbTVShow (mkTV 4 ''Dark'' 8.8 40 [18, 878])]"] m t
    by blast
qed

lemma getGenrePreferences_storWith [simp]: "getGenrePreferences (storWith gs) = gs"
  by (simp add: getGenrePreferences_def getUserPreferences_def getStorageItem_def
      AsyncStorage_getItem_def storWith_def)

text \<open>
  Claim C1 (the code departs from it): a pool is served from the cache without a fetch only
  when the stored genre fingerprint equals the requested genre set. The hit test of
  \<open>getMoviesFromAPI\<close> reads only the length of the cached list and its age: the pool fetched
  for the genres 28, 12, 16 at time 1000 is served at time 2000 for the genres 35, 18, 10749,
  whatever the upstream service would answer, although \<open>genresMatch\<close> tells the two sets apart.
\<close>

theorem stale_pool_served_for_other_genres:
  "let st1 = snd (getMoviesFromAPI svcDemo 1000 [28, 12, 16] initialState);
       st = snd (getTVShowsFromAPI svcDemo 1000 [28, 12, 16] st1) in
     userGenres (personalizedCache st) = [28, 12, 16] \<and>
     movies (personalizedCache st) \<noteq> [] \<and> tvShows (personalizedCache st) \<noteq> [] \<and>
     \<not> genresMatch [35, 18, 10749] (userGenres (personalizedCache st)) \<and>
     getMoviesFromAPI svc 2000 [35, 18, 10749] st = (Inr (movies (personalizedCache st)), st) \<and>
     getTVShowsFromAPI svc 2000 [35, 18, 10749] st = (Inr (tvShows (personalizedCache st)), st)"
  by (simp add: getMoviesFromAPI_def getTVShowsFromAPI_def getCache_def putCache_def
      initialState_def initialCache_def CACHE_DURATION_def genresMatch_def Let_def
      fetchMovies_def fetchTVShows_def movieRequests_def tvRequests_def svcDemo_def onePage_def
      mergePages_def transformTMDbResponse_def uniqueBy_Cons uniqueBy_Nil
      transformTMDbMovie_def transformTMDbTVShow_def mkMovie_def mkTV_def)

lemma getMoviesFromAPI_on_failure:
  assumes "\<exists>r\<in>set (movieRequests svc gs). isl r"
  shows "getMoviesFromAPI svc now gs st = (Inr (movies (getCache st gs)), st)"
proof -
  from assms obtain e where "Promise_all (movieRequests svc gs) = Inl e"
    using Promise_all_Inl by blast
  then show ?thesis by (simp add: getMoviesFromAPI_def fetchMovies_def Let_def)
qed

lemma getTVShowsFromAPI_on_failure:
  assumes "\<exists>r\<in>set (tvRequests svc gs). isl r"
  shows "getTVShowsFromAPI svc now gs st = (Inr (tvShows (getCache st gs)), st)"
proof -
  from assms obtain e where "Promise_all (tvRequests svc gs) = Inl e"
    using Promise_all_Inl by blast
  then show ?thesis by (simp add: getTVShowsFromAPI_def fetchTVShows_def Let_def)
qed

text \<open>
  Claim C2 (amended): when one of the four requests of a round is rejected, the pool
  operation does not reject. It answers the list that the selected cache slot holds (the
  general slot for the empty genre set, the personalized slot otherwise), expired or not and
  whichever genre set it was stored for, which is the empty list when the slot holds nothing;
  the cache is left as it was.
\<close>

theorem pool_fetch_failure_returns_cached_list:
  "((\<exists>r\<in>set (movieRequests svc gs). isl r) \<longrightarrow>
      getMoviesFromAPI svc now gs st = (Inr (movies (getCache st gs)), st)) \<and>
   ((\<exists>r\<in>set (tvRequests svc gs). isl r) \<longrightarrow>
      getTVShowsFromAPI svc now gs st = (Inr (tvShows (getCache st gs)), st))"
  using getMoviesFromAPI_on_failure getTVShowsFromAPI_on_failure by blast

theorem pool_fetch_failure_returns_cached_list_witness:
  "(let st = snd (getMoviesFromAPI svcDemo 1000 [28, 12, 16] initialState) in
      getMoviesFromAPI svcDown 900000 [16, 28, 12] st = (Inr (movies (personalizedCache st)), st) \<and>
      getMoviesFromAPI svcDown 900000 [35, 18, 10749] st = (Inr (movies (personalizedCache st)), st) \<and>
      movies (personalizedCache st) \<noteq> []) \<and>
   getTVShowsFromAPI svcDown 1000 [28, 12, 16] initialState = (Inr [], initialState)"
proof -
  let ?st = "snd (getMoviesFromAPI svcDemo 1000 [28, 12, 16] initialState)"
  have st: "?st = initialState\<lparr>personalizedCache :=
      \<lparr>movies = [transformTMDbMovie (mkMovie 1 ''Heat'' 8 50 [28, 80]),
                 transformTMDbMovie (mkMovie 2 ''Up'' 7 90 [16, 12])],
       tvShows = [], lastUpdate = 1000, userGenres = [28, 12, 16]\<rparr>\<rparr>"
    by (simp add: getMoviesFromAPI_def getCache_def putCache_def initialState_def initialCache_def
        Let_def fetchMovies_def movieRequests_def svcDemo_def onePage_def mergePages_def
        transformTMDbResponse_def uniqueBy_Cons uniqueBy_Nil transformTMDbMovie_def mkMovie_def)
  have f1: "\<exists>r\<in>set (movieRequests svcDown [16, 28, 12]). isl r"
    by (simp add: movieRequests_def svcDown_def)
  have f1': "\<exists>r\<in>set (movieRequests svcDown [35, 18, 10749]). isl r"
    by (simp add: movieRequests_def svcDown_def)
  have f2: "\<exists>r\<in>set (tvRequests svcDown [28, 12, 16]). isl r"
    by (simp add: tvRequests_def svcDown_def)
  have e: "tvShows (getCache initialState [28, 12, 16]) = []"
    by (simp add: getCache_def initialState_def initialCache_def)
  have m: "getMoviesFromAPI svcDown 900000 [16, 28, 12] ?st = (Inr (movies (getCache ?st [16, 28, 12])), ?st)"
    using pool_fetch_failure_returns_cached_list [of svcDown "[16, 28, 12]" 900000 ?st] f1
    by auto
  have m': "getMoviesFromAPI svcDown 900000 [35, 18, 10749] ?st
            = (Inr (movies (getCache ?st [35, 18, 10749])), ?st)"
    using pool_fetch_failure_returns_cached_list [of svcDown "[35, 18, 10749]" 900000 ?st] f1'
    by auto
  have t: "getTVShowsFromAPI svcDown 1000 [28, 12, 16] initialState
           = (Inr (tvShows (getCache initialState [28, 12, 16])), initialState)"
    using pool_fetch_failure_returns_cached_list [of svcDown "[28, 12, 16]" 1000 initialState] f2
    by auto
  have ne: "movies (personalizedCache ?st) \<noteq> []" by (simp add: st)
  have gc: "getCache ?st [16, 28, 12] = personalizedCache ?st"
           "getCache ?st [35, 18, 10749] = personalizedCache ?st"
    by (simp_all add: getCache_def)
  show ?thesis using m m' t e ne gc by (simp add: Let_def)
qed

theorem pool_error_not_propagated_counterexample:
  "isl (movies_getPopular svcDown 1) \<and> movies (getCache initialState []) = [] \<and>
   \<not> isl (fst (getMoviesFromAPI svcDown 1000 [] initialState)) \<and>
   getMoviesFromAPI svcDown 1000 [] initialState = (Inr [], initialState)"
  by (simp add: getMoviesFromAPI_def fetchMovies_def movieRequests_def svcDown_def getCache_def
      initialState_def initialCache_def Let_def)




lemma matching_card:
  "distinct G \<Longrightarrow> length (filter (\<lambda>i. i \<in> set P) G) = card (set P \<inter> set G)"
proof -
  assume d: "distinct G"
  have "distinct (filter (\<lambda>i. i \<in> set P) G)" using d by simp
  then have "length (filter (\<lambda>i. i \<in> set P) G) = card (set (filter (\<lambda>i. i \<in> set P) G))"
    by (rule distinct_card[symmetric])
  also have "set (filter (\<lambda>i. i \<in> set P) G) = set P \<inter> set G" by auto
  finally show ?thesis .
qed

lemma inter_le_left: "card (set P \<inter> set G) \<le> length P"
proof -
  have "card (set P \<inter> set G) \<le> card (set P)" by (simp add: card_mono)
  also have "\<dots> \<le> length P" by (rule card_length)
  finally show ?thesis .
qed

lemma inter_le_right: "card (set P \<inter> set G) \<le> length G"
proof -
  have "card (set P \<inter> set G) \<le> card (set G)" by (simp add: card_mono)
  also have "\<dots> \<le> length G" by (rule card_length)
  finally show ?thesis .
qed

lemma getGenreMatchScore_eq:
  assumes "distinct G"
  shows "getGenreMatchScore stor G =
     (if getGenrePreferences stor = [] \<or> G = [] then 0
      else 0.7 * (real (card (set (getGenrePreferences stor) \<inter> set G)) / real (length (getGenrePreferences stor)))
         + 0.3 * (real (card (set (getGenrePreferences stor) \<inter> set G)) / real (length G)))"
  using assms by (simp add: getGenreMatchScore_def Let_def matching_card)

lemma weighted_mono:
  fixes m m' p g :: nat
  assumes "m \<le> m'"
  shows "0.7 * (real m / real p) + 0.3 * (real m / real g)
       \<le> 0.7 * (real m' / real p) + 0.3 * (real m' / real g)"
proof -
  have "real m / real p \<le> real m' / real p" using assms by (simp add: divide_right_mono)
  moreover have "real m / real g \<le> real m' / real g" using assms by (simp add: divide_right_mono)
  ultimately show ?thesis by simp
qed

lemma weighted_bounds:
  fixes m p g :: nat
  assumes "m \<le> p" "m \<le> g" "0 < p" "0 < g"
  shows "0 \<le> 0.7 * (real m / real p) + 0.3 * (real m / real g)"
    and "0.7 * (real m / real p) + 0.3 * (real m / real g) \<le> 1"
proof -
  have a: "real m / real p \<le> 1" "0 \<le> real m / real p" using assms by simp_all
  have b: "real m / real g \<le> 1" "0 \<le> real m / real g" using assms by simp_all
  show "0 \<le> 0.7 * (real m / real p) + 0.3 * (real m / real g)" using a b by simp
  show "0.7 * (real m / real p) + 0.3 * (real m / real g) \<le> 1" using a b by simp
qed

text \<open>
  Claim C4 (amended): the match score is 0 when the preference list or the item's genre list
  is empty. For an item genre list without repeated ids it equals
  \<open>0.7 * (|P \<inter> G| / |P|) + 0.3 * (|P \<inter> G| / |G|)\<close>, lies between 0 and 1, and does not decrease
  when \<open>|P \<inter> G|\<close> grows with \<open>|P|\<close> and \<open>|G|\<close> fixed.
\<close>

theorem match_score_formula_bounds_monotone:
  "((getGenrePreferences stor = [] \<or> G = []) \<longrightarrow> getGenreMatchScore stor G = 0) \<and>
   (distinct G \<and> getGenrePreferences stor \<noteq> [] \<and> G \<noteq> [] \<longrightarrow>
      getGenreMatchScore stor G =
        0.7 * (real (card (set (getGenrePreferences stor) \<inter> set G)) / real (length (getGenrePreferences stor)))
      + 0.3 * (real (card (set (getGenrePreferences stor) \<inter> set G)) / real (length G))) \<and>
   (distinct G \<longrightarrow> 0 \<le> getGenreMatchScore stor G \<and> getGenreMatchScore stor G \<le> 1) \<and>
   (distinct G \<and> distinct G' \<and>
    length (getGenrePreferences stor) = length (getGenrePreferences stor') \<and>
    length G = length G' \<and>
    card (set (getGenrePreferences stor) \<inter> set G) \<le> card (set (getGenrePreferences stor') \<inter> set G')
      \<longrightarrow> getGenreMatchScore stor G \<le> getGenreMatchScore stor' G')"
proof (intro conjI impI)
  assume "getGenrePreferences stor = [] \<or> G = []"
  then show "getGenreMatchScore stor G = 0" by (auto simp: getGenreMatchScore_def)
next
  assume "distinct G \<and> getGenrePreferences stor \<noteq> [] \<and> G \<noteq> []"
  then show "getGenreMatchScore stor G =
        0.7 * (real (card (set (getGenrePreferences stor) \<inter> set G)) / real (length (getGenrePreferences stor)))
      + 0.3 * (real (card (set (getGenrePreferences stor) \<inter> set G)) / real (length G))"
    by (simp add: getGenreMatchScore_eq)
next
  assume d: "distinct G"
  show "0 \<le> getGenreMatchScore stor G"
  proof (cases "getGenrePreferences stor = [] \<or> G = []")
    case True
    then show ?thesis by (auto simp: getGenreMatchScore_def)
  next
    case False
    then show ?thesis
      using d weighted_bounds(1)[OF inter_le_left inter_le_right, of "getGenrePreferences stor" G]
      by (simp add: getGenreMatchScore_eq)
  qed
  show "getGenreMatchScore stor G \<le> 1"
  proof (cases "getGenrePreferences stor = [] \<or> G = []")
    case True
    then show ?thesis by (auto simp: getGenreMatchScore_def)
  next
    case False
    then show ?thesis
      using d weighted_bounds(2)[OF inter_le_left inter_le_right, of "getGenrePreferences stor" G]
      by (simp add: getGenreMatchScore_eq)
  qed
next
  assume h: "distinct G \<and> distinct G' \<and>
    length (getGenrePreferences stor) = length (getGenrePreferences stor') \<and>
    length G = length G' \<and>
    card (set (getGenrePreferences stor) \<inter> set G) \<le> card (set (getGenrePreferences stor') \<inter> set G')"
  show "getGenreMatchScore stor G \<le> getGenreMatchScore stor' G'"
  proof (cases "getGenrePreferences stor = [] \<or> G = []")
    case True
    with h have "getGenrePreferences stor' = [] \<or> G' = []" by auto
    with True show ?thesis by (auto simp: getGenreMatchScore_def)
  next
    case False
    with h have F': "\<not> (getGenrePreferences stor' = [] \<or> G' = [])" by auto
    from h have m: "card (set (getGenrePreferences stor) \<inter> set G) \<le> card (set (getGenrePreferences stor') \<inter> set G')"
      by simp
    show ?thesis
      using False F' h weighted_mono[OF m, of "length (getGenrePreferences stor)" "length G"]
      by (simp add: getGenreMatchScore_eq)
  qed
qed

theorem match_score_formula_bounds_monotone_witness:
  "getGenreMatchScore (storWith [28, 12, 16]) [28, 99] = 0.7 * (1 / 3) + 0.3 * (1 / 2) \<and>
   getGenreMatchScore (storWith [28, 12, 16]) [28, 99] \<le> getGenreMatchScore (storWith [28, 12, 16]) [28, 12]"
  using match_score_formula_bounds_monotone [of "storWith [28, 12, 16]" "[28, 99]" "[28, 12]" "storWith [28, 12, 16]"]
  by simp

theorem match_score_above_one_counterexample:
  "getGenreMatchScore (storWith [28]) [28, 28] = 17 / 10 \<and>
   \<not> getGenreMatchScore (storWith [28]) [28, 28] \<le> 1"
  by (simp add: getGenreMatchScore_def Let_def)

text \<open>
  Claim C10 (amended): when the storage read and the storage write both succeed,
  \<open>addGenrePreference g\<close> leaves the stored list as it is when \<open>g\<close> is a member, and otherwise
  stores the list with \<open>g\<close> appended at the end; the old list stays a prefix of the new one,
  so the first two genres, which the genre categories are built from, do not change once
  two are stored.
\<close>

theorem addGenrePreference_appends:
  assumes "\<not> getItem_fails stor" and "\<not> setItem_fails stor"
  shows "\<exists>stor'. addGenrePreference g stor = (True, stor') \<and>
           getGenrePreferences stor' =
             (if g \<in> set (getGenrePreferences stor) then getGenrePreferences stor
              else getGenrePreferences stor @ [g]) \<and>
           (g \<in> set (getGenrePreferences stor) \<longrightarrow> stor' = stor) \<and>
           take (length (getGenrePreferences stor)) (getGenrePreferences stor') = getGenrePreferences stor \<and>
           (2 \<le> length (getGenrePreferences stor) \<longrightarrow>
              slice0 2 (getGenrePreferences stor') = slice0 2 (getGenrePreferences stor))"
  using assms
  by (auto simp: addGenrePreference_def setGenrePreferences_def updateUserPreferences_def
      setStorageItem_def AsyncStorage_setItem_def getGenrePreferences_def getUserPreferences_def
      getStorageItem_def AsyncStorage_getItem_def Let_def slice0_def split: option.splits)

theorem addGenrePreference_appends_witness:
  "fst (addGenrePreference 16 (storWith [28, 12])) \<and>
   getGenrePreferences (snd (addGenrePreference 16 (storWith [28, 12]))) = [28, 12, 16] \<and>
   addGenrePreference 12 (storWith [28, 12]) = (True, storWith [28, 12])"
proof -
  have r: "\<not> getItem_fails (storWith [28, 12])" and w: "\<not> setItem_fails (storWith [28, 12])"
    by (simp_all add: storWith_def)
  show ?thesis
    using addGenrePreference_appends [OF r w, of 16] addGenrePreference_appends [OF r w, of 12]
    by auto
qed

theorem addGenrePreference_failing_storage_counterexample:
  "getGenrePreferences (storWith [28, 12]) = [28, 12] \<and>
   preferences_item ((storWith [28, 12])\<lparr>getItem_fails := True\<rparr>) = preferences_item (storWith [28, 12]) \<and>
   fst (addGenrePreference 12 ((storWith [28, 12])\<lparr>getItem_fails := True\<rparr>)) \<and>
   map_option favoriteGenres
     (preferences_item (snd (addGenrePreference 12 ((storWith [28, 12])\<lparr>getItem_fails := True\<rparr>))))
     = Some [12] \<and>
   \<not> fst (addGenrePreference 16 ((storWith [28, 12])\<lparr>setItem_fails := True\<rparr>)) \<and>
   map_option favoriteGenres
     (preferences_item (snd (addGenrePreference 16 ((storWith [28, 12])\<lparr>setItem_fails := True\<rparr>))))
     = Some [28, 12]"
  by (simp add: addGenrePreference_def setGenrePreferences_def updateUserPreferences_def
      setStorageItem_def AsyncStorage_setItem_def getGenrePreferences_def getUserPreferences_def
      getStorageItem_def AsyncStorage_getItem_def Let_def storWith_def defaultPreferences_def)

lemma addGenrePreference_write_failure:
  "g \<notin> set (getGenrePreferences stor) \<Longrightarrow> setItem_fails stor \<Longrightarrow>
     addGenrePreference g stor = (False, stor)"
  by (simp add: addGenrePreference_def setGenrePreferences_def updateUserPreferences_def
      setStorageItem_def AsyncStorage_setItem_def Let_def)

lemma cacheKey_nonempty: "cacheKey q fs \<noteq> []"
  by (simp add: cacheKey_def)

lemma map_set_keys: "fst ` set (map_set m k v) = insert k (fst ` set m)"
  by (induction m) force+

lemma map_set_length:
  "length (map_set m k v) = (if k \<in> fst ` set m then length m else Suc (length m))"
  by (induction m) force+

lemma map_set_new: "k \<notin> set (map fst m) \<Longrightarrow> map_set m k v = m @ [(k, v)]"
  by (induction m) auto

lemma map_set_distinct: "distinct (map fst m) \<Longrightarrow> distinct (map fst (map_set m k v))"
proof (induction m)
  case Nil
  show ?case by simp
next
  case (Cons p m)
  obtain k' v' where p: "p = (k', v')" by (cases p)
  show ?case
  proof (cases "k' = k")
    case True
    with Cons.prems p show ?thesis by simp
  next
    case False
    from Cons.prems p have "k' \<notin> fst ` set m" and "distinct (map fst m)" by simp_all
    with False Cons.IH p show ?thesis by (simp add: map_set_keys)
  qed
qed

lemma map_delete_first:
  "distinct (map fst ((k, v) # m)) \<Longrightarrow> map_delete ((k, v) # m) k = m"
proof -
  assume "distinct (map fst ((k, v) # m))"
  then have "k \<notin> fst ` set m" by simp
  then have "filter (\<lambda>(k', v). k' \<noteq> k) m = m"
    by (intro filter_True) force
  then show ?thesis by (simp add: map_delete_def)
qed

lemma updateSearchCache_inv:
  assumes "cache_inv c" "k \<noteq> []"
  shows "cache_inv (updateSearchCache k v c)"
proof -
  let ?n = "map_set c k v"
  have d: "distinct (map fst ?n)" using assms by (simp add: cache_inv_def map_set_distinct)
  have ne: "[] \<notin> set (map fst ?n)" using assms by (simp add: cache_inv_def map_set_keys)
  have len: "length ?n \<le> 11" using assms by (simp add: cache_inv_def map_set_length)
  show ?thesis
  proof (cases "length ?n > 10")
    case False
    then show ?thesis using d ne
      by (simp add: updateSearchCache_def cache_inv_def Let_def)
  next
    case True
    then obtain k0 v0 rest where n: "?n = (k0, v0) # rest" by (cases ?n) auto
    have k0: "k0 \<noteq> []" using ne n by auto
    have del: "map_delete ?n k0 = rest" using d n map_delete_first[of k0 v0 rest] by simp
    have "updateSearchCache k v c = rest"
      using True n k0 del by (simp add: updateSearchCache_def Let_def map_first_key_def)
    moreover have "cache_inv rest" using d ne len n by (auto simp: cache_inv_def)
    ultimately show ?thesis by simp
  qed
qed

lemma performSearch_inv: "cache_inv c \<Longrightarrow> cache_inv (performSearch q fs outcome c)"
  by (auto simp: performSearch_def Let_def updateSearchCache_inv cacheKey_nonempty split: sum.splits)

lemma runSearches_inv: "cache_inv c \<Longrightarrow> cache_inv (runSearches ops c)"
  by (induction ops arbitrary: c) (auto simp: performSearch_inv)

lemma cache_inv_empty: "cache_inv []"
  by (simp add: cache_inv_def)

lemma updateSearchCache_evicts_oldest:
  assumes "cache_inv c" "length c = 10" "k \<notin> set (map fst c)"
  shows "updateSearchCache k v c = tl c @ [(k, v)]"
proof -
  from assms(2) obtain k0 v0 rest where c: "c = (k0, v0) # rest" by (cases c) auto
  have new: "map_set c k v = c @ [(k, v)]" using assms(3) by (rule map_set_new)
  have k0: "k0 \<noteq> []" using assms(1) c by (auto simp: cache_inv_def)
  have d: "distinct (map fst ((k0, v0) # (rest @ [(k, v)])))"
    using assms(1,3) c by (auto simp: cache_inv_def)
  have "map_delete ((k0, v0) # (rest @ [(k, v)])) k0 = rest @ [(k, v)]"
    using d by (rule map_delete_first)
  then show ?thesis
    using assms(2) c k0 new by (simp add: updateSearchCache_def Let_def map_first_key_def)
qed

text \<open>
  Claim C7: after any sequence of searches the search cache holds at most 10 entries; a
  search that stores results under a new key while 10 entries are present drops exactly the
  first (oldest inserted) entry and appends the new one; a search that hits the cache leaves
  it, order included, as it was.
\<close>

theorem search_cache_bounded_fifo:
  "length (runSearches ops []) \<le> 10 \<and>
   (length (runSearches ops []) = 10 \<and> \<not> map_has (runSearches ops []) (cacheKey q fs) \<longrightarrow>
      performSearch q fs (Inr rs) (runSearches ops [])
        = tl (runSearches ops []) @ [(cacheKey q fs, rs)]) \<and>
   (map_has (runSearches ops []) (cacheKey q fs) \<longrightarrow>
      performSearch q fs outcome (runSearches ops []) = runSearches ops [])"
proof -
  have inv: "cache_inv (runSearches ops [])" by (simp add: runSearches_inv cache_inv_empty)
  then have "length (runSearches ops []) \<le> 10" by (simp add: cache_inv_def)
  moreover have "performSearch q fs (Inr rs) (runSearches ops [])
        = tl (runSearches ops []) @ [(cacheKey q fs, rs)]"
    if "length (runSearches ops []) = 10" "\<not> map_has (runSearches ops []) (cacheKey q fs)"
    using that updateSearchCache_evicts_oldest[OF inv, of "cacheKey q fs" rs]
    by (simp add: performSearch_def Let_def map_has_def)
  moreover have "performSearch q fs outcome (runSearches ops []) = runSearches ops []"
    if "map_has (runSearches ops []) (cacheKey q fs)"
    using that by (simp add: performSearch_def Let_def)
  ultimately show ?thesis by blast
qed

lemma tenSearches_cache:
  "runSearches tenSearches [] =
     [(''a0_'', 0), (''a1_'', 1), (''a2_'', 2), (''a3_'', 3), (''a4_'', 4),
      (''a5_'', 5), (''a6_'', 6), (''a7_'', 7), (''a8_'', 8), (''a9_'', 9)]"
  by code_simp

theorem search_cache_bounded_fifo_witness:
  "length (runSearches tenSearches []) = 10 \<and>
   performSearch ''b'' [28, 9, 10] (Inr 10) (runSearches tenSearches [])
     = [(''a1_'', 1), (''a2_'', 2), (''a3_'', 3), (''a4_'', 4), (''a5_'', 5),
        (''a6_'', 6), (''a7_'', 7), (''a8_'', 8), (''a9_'', 9), (''b_10,28,9'', 10)] \<and>
   performSearch ''A0'' [] (Inr 42) (runSearches tenSearches []) = runSearches tenSearches []"
proof -
  have kb: "cacheKey ''b'' [28, 9, 10] = ''b_10,28,9''" by code_simp
  have ka: "cacheKey ''A0'' [] = ''a0_''" by code_simp
  have evict: "performSearch ''b'' [28, 9, 10] (Inr 10) (runSearches tenSearches [])
        = tl (runSearches tenSearches []) @ [(cacheKey ''b'' [28, 9, 10], 10)]"
    using search_cache_bounded_fifo [of tenSearches "''b''" "[28, 9, 10]" 10]
    by (simp add: tenSearches_cache kb map_has_def)
  have hit: "performSearch ''A0'' [] (Inr 42) (runSearches tenSearches []) = runSearches tenSearches []"
    using search_cache_bounded_fifo [of tenSearches "''A0''" "[]" 10 "Inr 42"]
    by (simp add: tenSearches_cache ka map_has_def)
  show ?thesis using evict hit by (simp add: tenSearches_cache kb)
qed

lemma insert_by_key:
  "insert_by (\<lambda>a b. k b - k a) x ys = insort_key (\<lambda>x. - k x) x ys"
  by (induction ys) auto

lemma js_sort_key: "js_sort (\<lambda>a b. k b - k a) xs = sort_key (\<lambda>x. - k x) xs"
  by (induction xs) (auto simp: insert_by_key)

lemma js_sort_set: "set (js_sort (\<lambda>a b. k b - k a) xs) = set xs"
  by (simp add: js_sort_key)

lemma js_sort_length: "length (js_sort (\<lambda>a b. k b - k a) xs) = length xs"
  by (simp add: js_sort_key)

lemma js_sort_sorted: "sorted_wrt (\<lambda>a b. k b \<le> k a) (js_sort (\<lambda>a b. (k b :: real) - k a) xs)"
proof -
  have "sorted (map (\<lambda>x. - k x) (sort_key (\<lambda>x. - k x) xs))" by (rule sorted_sort_key)
  then show ?thesis by (simp add: js_sort_key sorted_map)
qed


lemma sorted_take_dominates:
  assumes "sorted_wrt R xs" "a \<in> set (take n xs)" "b \<in> set (drop n xs)"
  shows "R a b"
proof -
  have "sorted_wrt R (take n xs @ drop n xs)" using assms(1) by simp
  then show ?thesis using assms(2,3) unfolding sorted_wrt_append by blast
qed

lemma topBy_take_sort:
  "topBy k n pool (slice0 n (js_sort (\<lambda>a b. k b - k a) pool))"
proof -
  let ?s = "js_sort (\<lambda>a b. k b - k a) pool"
  have s: "sorted_wrt (\<lambda>a b. k b \<le> k a) ?s" by (rule js_sort_sorted)
  have len: "length (take n ?s) = min n (length pool)" by (simp add: js_sort_length min.commute)
  have sub: "set (take n ?s) \<subseteq> set pool" using set_take_subset[of n ?s] by (simp add: js_sort_set)
  have srt: "sorted_wrt (\<lambda>a b. k b \<le> k a) (take n ?s)" using s by (rule sorted_wrt_take)
  have dom: "k b \<le> k a" if "b \<in> set pool" "b \<notin> set (take n ?s)" "a \<in> set (take n ?s)" for a b
  proof -
    have "set ?s = set (take n ?s) \<union> set (drop n ?s)"
      by (metis append_take_drop_id set_append)
    then have "b \<in> set (drop n ?s)" using that(1,2) by (simp add: js_sort_set)
    then show ?thesis using sorted_take_dominates[OF s that(3)] by simp
  qed
  show ?thesis unfolding topBy_def slice0_def using len sub srt dom by blast
qed

lemma topBy_cong_set:
  "set pool = set pool' \<Longrightarrow> length pool = length pool' \<Longrightarrow> topBy k n pool d \<Longrightarrow> topBy k n pool' d"
  by (simp add: topBy_def)

lemma movie_sort_lift:
  "map MovieItem (js_sort (\<lambda>a b. popularity b - popularity a) ms) = js_sort byPopularity (map MovieItem ms)"
  "map MovieItem (js_sort (\<lambda>a b. vote_average b - vote_average a) ms) = js_sort byRating (map MovieItem ms)"
proof -
  have i1: "map MovieItem (insert_by (\<lambda>a b. popularity b - popularity a) x ys)
          = insert_by byPopularity (MovieItem x) (map MovieItem ys)" for x ys
    by (induction ys) (auto simp: byPopularity_def)
  have i2: "map MovieItem (insert_by (\<lambda>a b. vote_average b - vote_average a) x ys)
          = insert_by byRating (MovieItem x) (map MovieItem ys)" for x ys
    by (induction ys) (auto simp: byRating_def)
  show "map MovieItem (js_sort (\<lambda>a b. popularity b - popularity a) ms) = js_sort byPopularity (map MovieItem ms)"
    by (induction ms) (auto simp: i1)
  show "map MovieItem (js_sort (\<lambda>a b. vote_average b - vote_average a) ms) = js_sort byRating (map MovieItem ms)"
    by (induction ms) (auto simp: i2)
qed

lemma tv_sort_lift:
  "map TVItem (js_sort (\<lambda>a b. popularity b - popularity a) ts) = js_sort byPopularity (map TVItem ts)"
  "map TVItem (js_sort (\<lambda>a b. vote_average b - vote_average a) ts) = js_sort byRating (map TVItem ts)"
proof -
  have i1: "map TVItem (insert_by (\<lambda>a b. popularity b - popularity a) x ys)
          = insert_by byPopularity (TVItem x) (map TVItem ys)" for x ys
    by (induction ys) (auto simp: byPopularity_def)
  have i2: "map TVItem (insert_by (\<lambda>a b. vote_average b - vote_average a) x ys)
          = insert_by byRating (TVItem x) (map TVItem ys)" for x ys
    by (induction ys) (auto simp: byRating_def)
  show "map TVItem (js_sort (\<lambda>a b. popularity b - popularity a) ts) = js_sort byPopularity (map TVItem ts)"
    by (induction ts) (auto simp: i1)
  show "map TVItem (js_sort (\<lambda>a b. vote_average b - vote_average a) ts) = js_sort byRating (map TVItem ts)"
    by (induction ts) (auto simp: i2)
qed

lemma byPopularity_eq: "byPopularity = (\<lambda>a b. ci_popularity b - ci_popularity a)"
  by (intro ext) (simp add: byPopularity_def)

lemma byRating_eq: "byRating = (\<lambda>a b. ci_vote_average b - ci_vote_average a)"
  by (intro ext) (simp add: byRating_def)

lemma topBy_popularity: "topBy ci_popularity n pool (slice0 n (js_sort byPopularity pool))"
  unfolding byPopularity_eq by (rule topBy_take_sort)

lemma topBy_rating: "topBy ci_vote_average n pool (slice0 n (js_sort byRating pool))"
  unfolding byRating_eq by (rule topBy_take_sort)

lemma sort_byPopularity_set: "set (js_sort byPopularity xs) = set xs"
  unfolding byPopularity_eq by (rule js_sort_set)

lemma sort_byPopularity_length: "length (js_sort byPopularity xs) = length xs"
  unfolding byPopularity_eq by (rule js_sort_length)


lemma topBy_rating_after_popularity:
  "topBy ci_vote_average n pool (slice0 n (js_sort byRating (js_sort byPopularity pool)))"
  using topBy_rating[of n "js_sort byPopularity pool"]
  by (rule topBy_cong_set[rotated 2]) (simp_all add: sort_byPopularity_set sort_byPopularity_length)

lemma getMoviesFromAPI_total: "\<exists>ms st1. getMoviesFromAPI svc now gs st = (Inr ms, st1)"
  by (simp add: getMoviesFromAPI_def Let_def split: sum.splits)

lemma getTVShowsFromAPI_total: "\<exists>ts st1. getTVShowsFromAPI svc now gs st = (Inr ts, st1)"
  by (simp add: getTVShowsFromAPI_def Let_def split: sum.splits)

lemma slice0_map: "slice0 n (map f xs) = map f (slice0 n xs)"
  by (simp add: slice0_def take_map)

lemma slice0_length: "length (slice0 n xs) \<le> n"
  by (simp add: slice0_def)

lemma getFallbackCategories_result:
  assumes "getMoviesFromAPI svc t1 [] st = (Inr ms, st1)"
      and "getTVShowsFromAPI svc t2 [] st1 = (Inr ts, st2)"
  shows "\<exists>st'. getFallbackCategories svc t1 t2 st =
     (Inr [\<lparr>cat_id = ''popular-movies'', cat_title = ''Popular Movies'', subtitle = None,
            data = slice0 20 (js_sort byPopularity (map MovieItem ms))\<rparr>,
           \<lparr>cat_id = ''top-rated-movies'', cat_title = ''Top Rated Movies'', subtitle = None,
            data = slice0 20 (js_sort byRating (js_sort byPopularity (map MovieItem ms)))\<rparr>,
           \<lparr>cat_id = ''popular-tv'', cat_title = ''Popular TV Shows'', subtitle = None,
            data = slice0 20 (js_sort byPopularity (map TVItem ts))\<rparr>,
           \<lparr>cat_id = ''top-rated-tv'', cat_title = ''Top Rated TV Shows'', subtitle = None,
            data = slice0 20 (js_sort byRating (js_sort byPopularity (map TVItem ts)))\<rparr>], st')"
  using assms
  by (simp add: getFallbackCategories_def Let_def slice0_map[symmetric] movie_sort_lift tv_sort_lift)

text \<open>
  Claim C6: with fewer than 3 stored preferences \<open>getSimpleRecommendations\<close> answers exactly the
  categories Popular Movies, Top Rated Movies, Popular TV Shows, Top Rated TV Shows in that
  order; each holds at most 20 items, the 20 (or all) items of its pool that are highest in
  popularity, respectively rating, in descending order of that key.
\<close>

theorem general_mode_categories:
  assumes "length (getGenrePreferences stor) < 3"
  shows "\<exists>ms st1 ts st2 cats st'.
           getMoviesFromAPI svc t1 [] st = (Inr ms, st1) \<and>
           getTVShowsFromAPI svc t2 [] st1 = (Inr ts, st2) \<and>
           getSimpleRecommendations svc stor t1 t2 t3 t4 st = (Inr cats, st') \<and>
           map cat_title cats =
             [''Popular Movies'', ''Top Rated Movies'', ''Popular TV Shows'', ''Top Rated TV Shows''] \<and>
           (\<forall>c\<in>set cats. length (data c) \<le> 20) \<and>
           topBy ci_popularity 20 (map MovieItem ms) (data (cats ! 0)) \<and>
           topBy ci_vote_average 20 (map MovieItem ms) (data (cats ! 1)) \<and>
           topBy ci_popularity 20 (map TVItem ts) (data (cats ! 2)) \<and>
           topBy ci_vote_average 20 (map TVItem ts) (data (cats ! 3))"
proof -
  obtain ms st1 where m: "getMoviesFromAPI svc t1 [] st = (Inr ms, st1)"
    using getMoviesFromAPI_total by blast
  obtain ts st2 where t: "getTVShowsFromAPI svc t2 [] st1 = (Inr ts, st2)"
    using getTVShowsFromAPI_total by blast
  from getFallbackCategories_result[OF m t] obtain st' where
    f: "getFallbackCategories svc t1 t2 st =
     (Inr [\<lparr>cat_id = ''popular-movies'', cat_title = ''Popular Movies'', subtitle = None,
            data = slice0 20 (js_sort byPopularity (map MovieItem ms))\<rparr>,
           \<lparr>cat_id = ''top-rated-movies'', cat_title = ''Top Rated Movies'', subtitle = None,
            data = slice0 20 (js_sort byRating (js_sort byPopularity (map MovieItem ms)))\<rparr>,
           \<lparr>cat_id = ''popular-tv'', cat_title = ''Popular TV Shows'', subtitle = None,
            data = slice0 20 (js_sort byPopularity (map TVItem ts))\<rparr>,
           \<lparr>cat_id = ''top-rated-tv'', cat_title = ''Top Rated TV Shows'', subtitle = None,
            data = slice0 20 (js_sort byRating (js_sort byPopularity (map TVItem ts)))\<rparr>], st')"
    by blast
  have mode: "\<not> hasUserPreferences stor" using assms by (simp add: hasUserPreferences_def)
  have r: "getSimpleRecommendations svc stor t1 t2 t3 t4 st = getFallbackCategories svc t1 t2 st"
    using mode f by (simp add: getSimpleRecommendations_def Let_def)
  show ?thesis
    apply (rule exI[of _ ms], rule exI[of _ st1], rule exI[of _ ts], rule exI[of _ st2])
    apply (intro exI conjI)
            apply (rule m)
           apply (rule t)
          apply (simp only: r, rule f)
         apply simp
        apply (simp add: slice0_length)
       apply (simp add: topBy_popularity)
      apply (simp add: topBy_rating_after_popularity)
     apply (simp add: topBy_popularity)
    apply (simp add: topBy_rating_after_popularity)
    done
qed

theorem general_mode_categories_witness:
  "length (getGenrePreferences (storWith [28, 12])) < 3 \<and>
   (\<exists>cats st'. getSimpleRecommendations svcDemo (storWith [28, 12]) 1000 1001 1002 1003 initialState
                  = (Inr cats, st') \<and>
      map cat_title cats =
        [''Popular Movies'', ''Top Rated Movies'', ''Popular TV Shows'', ''Top Rated TV Shows''] \<and>
      (\<forall>c\<in>set cats. length (data c) \<le> 20))"
proof -
  have h: "length (getGenrePreferences (storWith [28, 12])) < 3" by simp
  show ?thesis
    using h general_mode_categories [OF h, of svcDemo 1000 initialState 1001 1002 1003]
    by (elim exE conjE) (intro conjI exI, assumption+)
qed

lemma movieRequests_nonempty: "movieRequests svc gs \<noteq> []"
  by (simp add: movieRequests_def)

lemma tvRequests_nonempty: "tvRequests svc gs \<noteq> []"
  by (simp add: tvRequests_def)

lemma genreCategory_empty: "genreCategory [] g = []"
  by (simp add: genreCategory_def Let_def slice0_def)

lemma personalizedCategoriesOf_empty:
  "gs \<noteq> [] \<Longrightarrow> personalizedCategoriesOf [] [] gs =
     [\<lparr>cat_id = ''for-you'', cat_title = ''For You'',
       subtitle = Some ''Handpicked based on your preferences'', data = []\<rparr>,
      \<lparr>cat_id = ''trending'', cat_title = ''Trending Now'',
       subtitle = Some ''Popular content in your favorite genres'', data = []\<rparr>]"
  by (simp add: personalizedCategoriesOf_def getPersonalizedContent_def Let_def slice0_def
      genreCategory_empty)

lemma all_fail_pools_empty:
  assumes "\<forall>r\<in>set (movieRequests svc gs). isl r"
      and "\<forall>r\<in>set (tvRequests svc gs). isl r"
      and "movies (getCache st gs) = []" and "tvShows (getCache st gs) = []"
  shows "getMoviesFromAPI svc t1 gs st = (Inr [], st)"
    and "getTVShowsFromAPI svc t2 gs st = (Inr [], st)"
proof -
  obtain r where "r \<in> set (movieRequests svc gs)"
    using movieRequests_nonempty[of svc gs] by (cases "movieRequests svc gs") auto
  then have "\<exists>r\<in>set (movieRequests svc gs). isl r" using assms(1) by blast
  then show "getMoviesFromAPI svc t1 gs st = (Inr [], st)"
    using getMoviesFromAPI_on_failure[of svc gs t1 st] assms(3) by simp
  obtain r' where "r' \<in> set (tvRequests svc gs)"
    using tvRequests_nonempty[of svc gs] by (cases "tvRequests svc gs") auto
  then have "\<exists>r\<in>set (tvRequests svc gs). isl r" using assms(2) by blast
  then show "getTVShowsFromAPI svc t2 gs st = (Inr [], st)"
    using getTVShowsFromAPI_on_failure[of svc gs t2 st] assms(4) by simp
qed

text \<open>
  Claim C3 (amended): when every upstream request fails and the cache slot of the current
  mode holds nothing, \<open>getSimpleRecommendations\<close> does not reject, and it raises no error signal
  either: it answers the fixed categories of the mode, each with an empty item list (the four
  general categories, or For You and Trending Now in personalized mode), and the \<open>error\<close>
  field of the hook stays unset.
\<close>

theorem recommendations_when_every_fetch_fails:
  assumes "\<forall>r\<in>set (movieRequests svc (modeGenres stor)). isl r"
      and "\<forall>r\<in>set (tvRequests svc (modeGenres stor)). isl r"
      and "movies (getCache st (modeGenres stor)) = []"
      and "tvShows (getCache st (modeGenres stor)) = []"
  shows "\<exists>cats st'.
           getSimpleRecommendations svc stor t1 t2 t3 t4 st = (Inr cats, st') \<and>
           map cat_title cats =
             (if hasUserPreferences stor then [''For You'', ''Trending Now'']
              else [''Popular Movies'', ''Top Rated Movies'', ''Popular TV Shows'',
                    ''Top Rated TV Shows'']) \<and>
           (\<forall>c\<in>set cats. data c = []) \<and>
           hook_error (fst (loadData svc stor t1 t2 t3 t4 (h, st))) = None \<and>
           categories (fst (loadData svc stor t1 t2 t3 t4 (h, st))) = cats"
proof (cases "hasUserPreferences stor")
  case True
  then have g: "modeGenres stor = getGenrePreferences stor" by (simp add: modeGenres_def)
  from True have ne: "getGenrePreferences stor \<noteq> []" by (auto simp: hasUserPreferences_def)
  note p = all_fail_pools_empty[OF assms, unfolded g]
  have r: "getSimpleRecommendations svc stor t1 t2 t3 t4 st =
        (Inr (personalizedCategoriesOf [] [] (getGenrePreferences stor)), st)"
    using True p by (simp add: getSimpleRecommendations_def getPersonalizedCategories_def Let_def)
  show ?thesis
    using True r ne by (simp add: loadData_def Let_def personalizedCategoriesOf_empty)
next
  case False
  then have g: "modeGenres stor = []" by (simp add: modeGenres_def)
  note p = all_fail_pools_empty[OF assms, unfolded g]
  from getFallbackCategories_result[OF p(1)[of t1] p(2)[of t2]] obtain st' where
    f: "getFallbackCategories svc t1 t2 st =
     (Inr [\<lparr>cat_id = ''popular-movies'', cat_title = ''Popular Movies'', subtitle = None,
            data = []\<rparr>,
           \<lparr>cat_id = ''top-rated-movies'', cat_title = ''Top Rated Movies'', subtitle = None,
            data = []\<rparr>,
           \<lparr>cat_id = ''popular-tv'', cat_title = ''Popular TV Shows'', subtitle = None,
            data = []\<rparr>,
           \<lparr>cat_id = ''top-rated-tv'', cat_title = ''Top Rated TV Shows'', subtitle = None,
            data = []\<rparr>], st')"
    by (auto simp: slice0_def)
  have r: "getSimpleRecommendations svc stor t1 t2 t3 t4 st = getFallbackCategories svc t1 t2 st"
    using False f by (simp add: getSimpleRecommendations_def Let_def)
  show ?thesis
    using False r f by (simp add: loadData_def Let_def)
qed

theorem recommendations_when_every_fetch_fails_witness:
  "\<exists>cats st'.
     getSimpleRecommendations svcDown (storWith [28, 12, 16]) 1000 1001 1002 1003 initialState
       = (Inr cats, st') \<and>
     map cat_title cats = [''For You'', ''Trending Now''] \<and> (\<forall>c\<in>set cats. data c = [])"
proof -
  have m: "modeGenres (storWith [28, 12, 16]) = [28, 12, 16]"
    by (simp add: modeGenres_def hasUserPreferences_def)
  have a: "\<forall>r\<in>set (movieRequests svcDown (modeGenres (storWith [28, 12, 16]))). isl r"
    by (simp add: m movieRequests_def svcDown_def)
  have a': "\<forall>r\<in>set (tvRequests svcDown (modeGenres (storWith [28, 12, 16]))). isl r"
    by (simp add: m tvRequests_def svcDown_def)
  have b: "movies (getCache initialState (modeGenres (storWith [28, 12, 16]))) = []"
    by (simp add: m getCache_def initialState_def initialCache_def)
  have c: "tvShows (getCache initialState (modeGenres (storWith [28, 12, 16]))) = []"
    by (simp add: m getCache_def initialState_def initialCache_def)
  have hp: "hasUserPreferences (storWith [28, 12, 16])" by (simp add: hasUserPreferences_def)
  show ?thesis
    using recommendations_when_every_fetch_fails [OF a a' b c, of 1000 1001 1002 1003 hookInit] hp
    by auto
qed

theorem empty_category_list_counterexample:
  "movies (generalCache initialState) = [] \<and> tvShows (generalCache initialState) = [] \<and>
   isl (movies_getPopular svcDown 1) \<and> isl (movies_getPopular svcDown 2) \<and>
   isl (movies_getTopRated svcDown 1) \<and> isl (movies_getNowPlaying svcDown 1) \<and>
   isl (tv_getPopular svcDown 1) \<and> isl (tv_getPopular svcDown 2) \<and>
   isl (tv_getTopRated svcDown 1) \<and> isl (tv_getOnTheAir svcDown 1) \<and>
   fst (getSimpleRecommendations svcDown (storWith []) 1000 1001 1002 1003 initialState) \<noteq> Inr [] \<and>
   fst (getSimpleRecommendations svcDown (storWith []) 1000 1001 1002 1003 initialState) =
     Inr [\<lparr>cat_id = ''popular-movies'', cat_title = ''Popular Movies'', subtitle = None, data = []\<rparr>,
          \<lparr>cat_id = ''top-rated-movies'', cat_title = ''Top Rated Movies'', subtitle = None, data = []\<rparr>,
          \<lparr>cat_id = ''popular-tv'', cat_title = ''Popular TV Shows'', subtitle = None, data = []\<rparr>,
          \<lparr>cat_id = ''top-rated-tv'', cat_title = ''Top Rated TV Shows'', subtitle = None, data = []\<rparr>] \<and>
   hook_error (fst (loadData svcDown (storWith []) 1000 1001 1002 1003 (hookInit, initialState))) = None"
  by (simp add: loadData_def getSimpleRecommendations_def hasUserPreferences_def getFallbackCategories_def
      getMoviesFromAPI_def getTVShowsFromAPI_def fetchMovies_def fetchTVShows_def
      movieRequests_def tvRequests_def svcDown_def getCache_def initialState_def
      initialCache_def Let_def slice0_def hookInit_def)








end
